theory Spec2Isabelle
  imports Complex_Main "HOL-Library.Word" "HOL-Library.Sublist" "HOL-Library.Multiset"
begin

unbundle bit_operations_syntax

section \<open>Python values used by the handlers\<close>

text \<open>
  The notification payloads are Python \<^verbatim>\<open>bytearray\<close>s: lists of bytes. Python integers
  are unbounded (\<open>int\<close>). The exceptions the modelled code can raise are
  \<^verbatim>\<open>IndexError\<close> (an index read out of range) and \<^verbatim>\<open>ValueError\<close> (a data frame built
  from columns of different lengths); \<open>ExternalError\<close> stands for a failure inside a
  numpy or scipy call, which the repository does not define.
\<close>

type_synonym byte = "8 word"

datatype error = IndexError | ValueError | ExternalError

text \<open>\<^verbatim>\<open>xs[i]\<close> for an index \<open>i \<ge> 0\<close>: raises \<^verbatim>\<open>IndexError\<close> out of range.\<close>

definition getitem :: "'a list \<Rightarrow> nat \<Rightarrow> error + 'a" where
  "getitem xs i = (if i < length xs then Inr (xs ! i) else Inl IndexError)"

text \<open>\<^verbatim>\<open>xs[a:b]\<close> for \<open>0 \<le> a\<close>, \<open>0 \<le> b\<close>: slicing never raises, it clips to the list.\<close>

definition slice :: "'a list \<Rightarrow> nat \<Rightarrow> nat \<Rightarrow> 'a list" where
  "slice xs a b = take (b - a) (drop a xs)"

text \<open>\<^verbatim>\<open>xs[i:]\<close>: a negative start counts from the end and is clipped at the front.\<close>

definition slice_from :: "'a list \<Rightarrow> int \<Rightarrow> 'a list" where
  "slice_from xs i =
     (if i < 0 then drop (nat (int (length xs) + i)) xs else drop (nat i) xs)"

text \<open>\<^verbatim>\<open>int.from_bytes(bs, byteorder="little")\<close>, unsigned.\<close>

fun from_bytes_little :: "byte list \<Rightarrow> int" where
  "from_bytes_little [] = 0"
| "from_bytes_little (b # bs) = uint b + 256 * from_bytes_little bs"

text \<open>
  \<^verbatim>\<open>int.from_bytes(bs, byteorder="little", signed=True)\<close>: the two's-complement reading
  of the \<open>8 * len(bs)\<close> bits; the empty byte string is 0.
\<close>

definition from_bytes_little_signed :: "byte list \<Rightarrow> int" where
  "from_bytes_little_signed bs =
     (let u = from_bytes_little bs; n = length bs
      in if 0 < n \<and> 2 ^ (8 * n - 1) \<le> u then u - 2 ^ (8 * n) else u)"

text \<open>
  \<^verbatim>\<open>a / b\<close> on two Python integers is the float nearest to the exact quotient. The model
  keeps the exact quotient as a rational; \<open>b\<close> is the constant \<^verbatim>\<open>SAMPLING_RATE\<close> wherever
  the code divides, so \<^verbatim>\<open>ZeroDivisionError\<close> cannot arise.
\<close>

definition true_div :: "int \<Rightarrow> int \<Rightarrow> rat" where
  "true_div a b = of_int a / of_int b"

section \<open>Session state (the module globals of main.py)\<close>

text \<open>
  A \<^verbatim>\<open>datetime\<close> has microsecond resolution: it is modelled as the number of microseconds
  since a fixed epoch. A timestamp string produced by \<^verbatim>\<open>strftime\<close> is modelled by the instant
  it denotes, which is what \<^verbatim>\<open>pd.to_datetime\<close> reads back from it.
\<close>

type_synonym datetime = int

record session =
  ecg_session_data :: "int list"
  ecg_session_time :: "rat list"
  sample_counter :: int
  current_ble_hr :: "int option"
  hr_log :: "(datetime \<times> int) list"
  session_start_time :: datetime

definition SAMPLING_RATE :: int where
  "SAMPLING_RATE = 100"

text \<open>The globals as the module initialises them; \<open>t0\<close> is \<^verbatim>\<open>datetime.now()\<close> at import.\<close>

definition initial_session :: "datetime \<Rightarrow> session" where
  "initial_session t0 =
     \<lparr>ecg_session_data = [], ecg_session_time = [], sample_counter = 0,
      current_ble_hr = None, hr_log = [], session_start_time = t0\<rparr>"

section \<open>BLE notification handlers\<close>

text \<open>
  The handlers are those of main.py; app.py defines \<^verbatim>\<open>pmd_data_handler\<close>,
  \<^verbatim>\<open>parse_heart_rate_measurement\<close> and \<^verbatim>\<open>heart_rate_notification_handler\<close> with the
  same statements.

  The \<^verbatim>\<open>while offset + step <= len(samples)\<close> loop of \<^verbatim>\<open>pmd_data_handler\<close>, with
  \<^verbatim>\<open>step = 3\<close>. The relative time is computed from the counter before it is incremented.
\<close>

function pmd_loop :: "byte list \<Rightarrow> nat \<Rightarrow> session \<Rightarrow> session" where
  "pmd_loop samples offset s =
     (if offset + 3 \<le> length samples then
        pmd_loop samples (offset + 3)
          (s\<lparr>ecg_session_data :=
                ecg_session_data s @ [from_bytes_little_signed (slice samples offset (offset + 3))],
             ecg_session_time :=
                ecg_session_time s @ [true_div (sample_counter s) SAMPLING_RATE],
             sample_counter := sample_counter s + 1\<rparr>)
      else s)"
  by pat_completeness auto
termination
  by (relation "measure (\<lambda>(samples, offset, s). length samples - offset)") auto

declare pmd_loop.simps [simp del]

text \<open>
  \<^verbatim>\<open>pmd_data_handler\<close>: an empty payload returns at once; \<^verbatim>\<open>data[0]\<close> is an index read;
  \<^verbatim>\<open>data[10:]\<close> is a slice, empty when the payload has at most ten bytes.
\<close>

definition pmd_data_handler :: "byte list \<Rightarrow> session \<Rightarrow> error + session" where
  "pmd_data_handler data s =
     (if data = [] then Inr s
      else case getitem data 0 of
             Inl e \<Rightarrow> Inl e
           | Inr tag \<Rightarrow>
               if tag = 0 then Inr (pmd_loop (slice_from data 10) 0 s) else Inr s)"

text \<open>
  \<^verbatim>\<open>parse_heart_rate_measurement\<close>: \<^verbatim>\<open>data[0]\<close> and \<^verbatim>\<open>data[1]\<close> are index reads and can
  raise; \<^verbatim>\<open>data[1:3]\<close> is a slice and cannot. The \<^verbatim>\<open>print\<close> is not modelled.
\<close>

definition parse_heart_rate_measurement :: "byte list \<Rightarrow> error + int" where
  "parse_heart_rate_measurement data =
     (case getitem data 0 of
        Inl e \<Rightarrow> Inl e
      | Inr flags \<Rightarrow>
          if flags AND 1 = 0 then
            (case getitem data 1 of Inl e \<Rightarrow> Inl e | Inr b \<Rightarrow> Inr (uint b))
          else Inr (from_bytes_little (slice data 1 3)))"

text \<open>
  \<^verbatim>\<open>strftime("%Y-%m-%d %H:%M:%S")\<close> drops the microseconds: the logged timestamp denotes
  the start of the second of \<open>now\<close>.
\<close>

definition strftime_seconds :: "datetime \<Rightarrow> datetime" where
  "strftime_seconds now = (now div 1000000) * 1000000"

text \<open>
  \<^verbatim>\<open>heart_rate_notification_handler\<close>; \<open>now\<close> is the value of \<^verbatim>\<open>datetime.now()\<close> read
  inside the critical section. A failing parse raises before any global is written.
\<close>

definition heart_rate_notification_handler ::
    "byte list \<Rightarrow> datetime \<Rightarrow> session \<Rightarrow> error + session" where
  "heart_rate_notification_handler data now s =
     (case parse_heart_rate_measurement data of
        Inl e \<Rightarrow> Inl e
      | Inr hr \<Rightarrow>
          Inr (s\<lparr>current_ble_hr := Some hr,
                 hr_log := hr_log s @ [(strftime_seconds now, hr)]\<rparr>))"


text \<open>
  The session as it evolves: any number of handler calls that return normally, in any
  order. A call that raises has written nothing, so it contributes no step.
\<close>

inductive evolves :: "session \<Rightarrow> session \<Rightarrow> bool" where
  evolves_refl: "evolves s s"
| evolves_waveform:
    "evolves s s' \<Longrightarrow> pmd_data_handler data s' = Inr s'' \<Longrightarrow> evolves s s''"
| evolves_heart_rate:
    "evolves s s' \<Longrightarrow> heart_rate_notification_handler data now s' = Inr s'' \<Longrightarrow>
     evolves s s''"

code_pred evolves .

section \<open>Display refresh (update_graph)\<close>

text \<open>
  Lines 149 to 152 of \<^verbatim>\<open>update_graph\<close>: the last ten seconds of both copies.
  \<^verbatim>\<open>data[-window_size:]\<close> is \<open>slice_from data (- window_size)\<close>; the copy of
  \<^verbatim>\<open>ecg_session_time\<close> that the source calls \<^verbatim>\<open>times\<close> is \<open>times'\<close> here.
\<close>

definition recent_window :: "int list \<Rightarrow> rat list \<Rightarrow> int list \<times> rat list" where
  "recent_window data times' =
     (let window_size = SAMPLING_RATE * 10
      in if int (length data) > window_size
         then (slice_from data (- window_size), slice_from times' (- window_size))
         else (data, times'))"

text \<open>
  The figure is the list of its traces: the line that \<^verbatim>\<open>px.line\<close> draws and, when peaks
  were searched, the markers that \<^verbatim>\<open>add_scatter\<close> adds. Titles and colours are left out.
\<close>

datatype trace = Line "rat list" "int list" | Markers "rat list" "int list"

text \<open>\<^verbatim>\<open>np.array(xs)[peaks]\<close>: raises \<^verbatim>\<open>IndexError\<close> when an index is out of bounds.\<close>

definition take_indices :: "'a list \<Rightarrow> nat list \<Rightarrow> error + 'a list" where
  "take_indices xs idx =
     (if list_all (\<lambda>i. i < length xs) idx then Inr (map (\<lambda>i. xs ! i) idx)
      else Inl IndexError)"

text \<open>
  \<^verbatim>\<open>update_graph\<close>. \<^verbatim>\<open>scipy.signal.find_peaks\<close> and \<^verbatim>\<open>np.std\<close> are library functions:
  they are parameters of the model (\<open>find_peaks data distance prominence\<close>), and each may
  fail. \<^verbatim>\<open>pd.DataFrame\<close> raises \<^verbatim>\<open>ValueError\<close> on columns of different lengths. The
  display text is modelled by the two values it interpolates: the latest heart rate and
  the current time \<open>now\<close>.
\<close>

definition update_graph ::
    "(int list \<Rightarrow> real \<Rightarrow> real \<Rightarrow> error + nat list) \<Rightarrow> (int list \<Rightarrow> error + real) \<Rightarrow>
     datetime \<Rightarrow> session \<Rightarrow> error + (trace list \<times> int option \<times> datetime)" where
  "update_graph find_peaks np_std now s =
     (let ble_hr = current_ble_hr s;
          (data, times') = recent_window (ecg_session_data s) (ecg_session_time s)
      in if length times' \<noteq> length data then Inl ValueError
         else
           let fig = [Line times' data]
           in if length data > 0 then
                (case np_std data of
                   Inl e \<Rightarrow> Inl e
                 | Inr sd \<Rightarrow>
                     (case find_peaks data (of_int SAMPLING_RATE * 0.3) (0.5 * sd) of
                        Inl e \<Rightarrow> Inl e
                      | Inr peaks \<Rightarrow>
                          (case take_indices times' peaks of
                             Inl e \<Rightarrow> Inl e
                           | Inr xs \<Rightarrow>
                               (case take_indices data peaks of
                                  Inl e \<Rightarrow> Inl e
                                | Inr ys \<Rightarrow> Inr (fig @ [Markers xs ys], ble_hr, now)))))
              else Inr (fig, ble_hr, now))"

text \<open>The points marked as R peaks in a figure.\<close>

fun marked_points :: "trace list \<Rightarrow> (rat \<times> int) list" where
  "marked_points [] = []"
| "marked_points (Line xs ys # ts) = marked_points ts"
| "marked_points (Markers xs ys # ts) = zip xs ys @ marked_points ts"

section \<open>Combined export (generate_combined_csv)\<close>

text \<open>
  \<^verbatim>\<open>timedelta(seconds=x)\<close> rounds \<open>x\<close> to whole microseconds, halves to the even
  neighbour.
\<close>

definition round_half_even :: "rat \<Rightarrow> int" where
  "round_half_even x =
     (let f = \<lfloor>x\<rfloor>; d = x - of_int f
      in if d < 1 / 2 then f else if 1 / 2 < d then f + 1
         else if even f then f else f + 1)"

definition timedelta_seconds :: "rat \<Rightarrow> int" where
  "timedelta_seconds x = round_half_even (x * 1000000)"

record row =
  timestamp :: datetime
  source :: string
  row_value :: int

definition ecg_row :: "datetime \<Rightarrow> rat \<times> int \<Rightarrow> row" where
  "ecg_row start = (\<lambda>(rel_time, ecg_value).
     \<lparr>timestamp = start + timedelta_seconds rel_time, source = ''ECG'',
      row_value = ecg_value\<rparr>)"

definition hr_row :: "datetime \<times> int \<Rightarrow> row" where
  "hr_row = (\<lambda>(ts, hr). \<lparr>timestamp = ts, source = ''Heart Rate'', row_value = hr\<rparr>)"

text \<open>
  \<^verbatim>\<open>generate_combined_csv\<close>, up to the sorted rows that are handed to pandas. The rows
  are built from copies of the globals, ECG rows first; \<^verbatim>\<open>rows.sort(key=...)\<close> is a stable
  sort on the instant that \<^verbatim>\<open>pd.to_datetime\<close> reads from the timestamp. The callback
  writes no global: the session is returned as it was.
\<close>

definition generate_combined_csv :: "session \<Rightarrow> error + (row list \<times> session)" where
  "generate_combined_csv s =
     (let ecg_times = ecg_session_time s;
          ecg_values = ecg_session_data s;
          hr_data_local = hr_log s;
          rows = map (ecg_row (session_start_time s)) (zip ecg_times ecg_values)
                 @ map hr_row hr_data_local
      in Inr (sort_key timestamp rows, s))"

section \<open>The specification's reading of a waveform packet\<close>

text \<open>
  The three definitions of this section are written from the specification, to be
  compared with the loop above. A sample is three bytes, least significant first, and
  bit 7 of the third byte is the sign.
\<close>

definition le24_signed :: "byte \<Rightarrow> byte \<Rightarrow> byte \<Rightarrow> int" where
  "le24_signed b0 b1 b2 =
     (let u = uint b0 + 256 * uint b1 + 65536 * uint b2
      in if bit b2 7 then u - 16777216 else u)"

text \<open>One amplitude for each complete group of three bytes, in order.\<close>

definition amplitude_groups :: "byte list \<Rightarrow> int list" where
  "amplitude_groups samples =
     map (\<lambda>k. le24_signed (samples ! (3 * k)) (samples ! (3 * k + 1)) (samples ! (3 * k + 2)))
       [0..<length samples div 3]"

text \<open>
  The specification's \<^verbatim>\<open>append_waveform\<close>: each amplitude of the batch gets the next
  sequence index and the relative time of that index, and the counter advances by the
  size of the batch.
\<close>

definition append_waveform :: "int list \<Rightarrow> session \<Rightarrow> session" where
  "append_waveform amplitudes s =
     s\<lparr>ecg_session_data := ecg_session_data s @ amplitudes,
       ecg_session_time := ecg_session_time s @
          map (\<lambda>k. true_div (sample_counter s + int k) SAMPLING_RATE) [0..<length amplitudes],
       sample_counter := sample_counter s + int (length amplitudes)\<rparr>"


section \<open>Bytes and the three-byte samples\<close>

lemma uint_byte_bounds: "0 \<le> uint (b::byte)" "uint (b::byte) < 256"
  using uint_bounded[of b] by simp_all

lemma bit7_iff: "bit (b::byte) 7 \<longleftrightarrow> 128 \<le> uint b"
proof -
  have "bit b 7 \<longleftrightarrow> bit (uint b) 7" by (simp add: bit_uint_iff)
  also have "\<dots> \<longleftrightarrow> odd (uint b div 128)" by (simp add: bit_iff_odd)
  also have "\<dots> \<longleftrightarrow> 128 \<le> uint b"
    using uint_byte_bounds[of b] by presburger
  finally show ?thesis .
qed

lemma from_bytes_3: "from_bytes_little_signed [b0, b1, b2] = le24_signed b0 b1 b2"
proof -
  have "0 \<le> uint b0" "uint b0 < 256" "0 \<le> uint b1" "uint b1 < 256" "0 \<le> uint b2" "uint b2 < 256"
    using uint_byte_bounds by blast+
  then have "8388608 \<le> uint b0 + (256 * uint b1 + 65536 * uint b2) \<longleftrightarrow> 128 \<le> uint b2"
    by linarith
  then show ?thesis
    unfolding from_bytes_little_signed_def le24_signed_def Let_def bit7_iff
    by simp
qed

text \<open>The same value read as a 24-bit machine word in two's complement.\<close>

lemma uint_cat2: "uint (word_cat (b1::byte) (b0::byte) :: 16 word) = uint b0 + 256 * uint b1"
proof -
  have b: "uint b0 + 256 * uint b1 < 65536" "0 \<le> uint b0 + 256 * uint b1" "0 \<le> uint b0" "uint b0 < 256"
    using uint_byte_bounds[of b0] uint_byte_bounds[of b1] by linarith+
  have "uint (word_cat b1 b0 :: 16 word) = concat_bit LENGTH(8) (uint b0) (uint b1) mod 2 ^ LENGTH(16)"
    unfolding word_cat_eq' uint_word_of_int ..
  also have "\<dots> = (uint b0 mod 256 + 256 * uint b1) mod 65536"
    by (simp add: concat_bit_eq take_bit_eq_mod push_bit_eq_mult mult.commute)
  also have "\<dots> = uint b0 + 256 * uint b1"
    using b by (simp add: mod_pos_pos_trivial)
  finally show ?thesis .
qed

lemma uint_cat3:
  "uint (word_cat (b2::byte) (word_cat (b1::byte) (b0::byte) :: 16 word) :: 24 word)
     = uint b0 + 256 * uint b1 + 65536 * uint b2"
proof -
  let ?v = "uint b0 + 256 * uint b1"
  have b: "?v + 65536 * uint b2 < 16777216" "0 \<le> ?v + 65536 * uint b2" "?v < 65536" "0 \<le> ?v"
    using uint_byte_bounds[of b0] uint_byte_bounds[of b1] uint_byte_bounds[of b2] by linarith+
  have "uint (word_cat b2 (word_cat b1 b0 :: 16 word) :: 24 word)
      = concat_bit LENGTH(16) (uint (word_cat b1 b0 :: 16 word)) (uint b2) mod 2 ^ LENGTH(24)"
    unfolding word_cat_eq' [of b2] uint_word_of_int ..
  also have "\<dots> = (?v mod 65536 + 65536 * uint b2) mod 16777216"
    by (simp add: concat_bit_eq take_bit_eq_mod push_bit_eq_mult uint_cat2 mult.commute)
  also have "\<dots> = ?v + 65536 * uint b2"
    using b by (simp add: mod_pos_pos_trivial)
  finally show ?thesis .
qed

lemma mod_wrap_once:
  fixes x :: int
  assumes "16777216 \<le> x" and "x < 2 * 16777216"
  shows "x mod 16777216 = x - 16777216"
proof -
  from assms have "(x - 16777216) mod 16777216 = x - 16777216"
    by (intro mod_pos_pos_trivial) simp_all
  then show ?thesis by simp
qed

lemma le24_signed_sint:
  "le24_signed b0 b1 b2 = sint (word_cat b2 (word_cat b1 b0 :: 16 word) :: 24 word)"
proof -
  let ?u = "uint b0 + 256 * uint b1 + 65536 * uint b2"
  have b: "0 \<le> uint b0" "uint b0 < 256" "0 \<le> uint b1" "uint b1 < 256" "0 \<le> uint b2" "uint b2 < 256"
    using uint_byte_bounds by blast+
  have "sint (word_cat b2 (word_cat b1 b0 :: 16 word) :: 24 word) = (?u + 8388608) mod 16777216 - 8388608"
    by (simp add: sint_uint signed_take_bit_eq_take_bit_shift uint_cat3 take_bit_eq_mod)
  also have "\<dots> = (if 128 \<le> uint b2 then ?u - 16777216 else ?u)"
  proof (cases "128 \<le> uint b2")
    case True
    with b have "16777216 \<le> ?u + 8388608" "?u + 8388608 < 2 * 16777216" by linarith+
    then have "(?u + 8388608) mod 16777216 = ?u + 8388608 - 16777216"
      by (rule mod_wrap_once)
    with True show ?thesis by simp
  next
    case False
    with b have "0 \<le> ?u + 8388608" "?u + 8388608 < 16777216" by linarith+
    then have "(?u + 8388608) mod 16777216 = ?u + 8388608"
      by (rule mod_pos_pos_trivial)
    with False show ?thesis by simp
  qed
  finally show ?thesis
    by (simp add: le24_signed_def Let_def bit7_iff)
qed

lemma slice_3: "offset + 3 \<le> length xs \<Longrightarrow> slice xs offset (offset + 3) = [xs ! offset, xs ! (offset + 1), xs ! (offset + 2)]"
  unfolding slice_def
  by (simp add: take_Suc_conv_app_nth numeral_3_eq_3 list_eq_iff_nth_eq less_Suc_eq)

section \<open>Appending a batch\<close>

lemma append_waveform_Cons:
  "append_waveform (a # as) s =
     append_waveform as
       (s\<lparr>ecg_session_data := ecg_session_data s @ [a],
          ecg_session_time := ecg_session_time s @ [true_div (sample_counter s) SAMPLING_RATE],
          sample_counter := sample_counter s + 1\<rparr>)"
  unfolding append_waveform_def
  by (simp add: map_upt_Suc add.assoc del: upt_Suc)

lemma append_waveform_Nil: "append_waveform [] s = s"
  by (simp add: append_waveform_def)

section \<open>The sample loop\<close>

text \<open>
  The loop started at \<open>offset\<close> appends one amplitude for every complete group of three
  bytes from \<open>offset\<close> on: computation induction on the loop.
\<close>

lemma pmd_loop_eq:
  "pmd_loop samples offset s =
     append_waveform
       (map (\<lambda>k. le24_signed (samples ! (offset + 3 * k)) (samples ! (offset + 3 * k + 1))
                   (samples ! (offset + 3 * k + 2)))
          [0..<(length samples - offset) div 3]) s"
proof (induction samples offset s rule: pmd_loop.induct)
  case (1 samples offset s)
  show ?case
  proof (cases "offset + 3 \<le> length samples")
    case True
    then have n: "(length samples - offset) div 3 = Suc ((length samples - (offset + 3)) div 3)"
      by presburger
    let ?s' = "s\<lparr>ecg_session_data :=
                    ecg_session_data s @ [from_bytes_little_signed (slice samples offset (offset + 3))],
                  ecg_session_time :=
                    ecg_session_time s @ [true_div (sample_counter s) SAMPLING_RATE],
                  sample_counter := sample_counter s + 1\<rparr>"
    have "pmd_loop samples offset s = pmd_loop samples (offset + 3) ?s'"
      using True by (subst pmd_loop.simps) (simp only: if_True)
    also have "\<dots> = append_waveform
       (map (\<lambda>k. le24_signed (samples ! (offset + 3 + 3 * k)) (samples ! (offset + 3 + 3 * k + 1))
                   (samples ! (offset + 3 + 3 * k + 2)))
          [0..<(length samples - (offset + 3)) div 3]) ?s'"
      by (rule "1.IH"[OF True])
    also have "\<dots> = append_waveform
       (map (\<lambda>k. le24_signed (samples ! (offset + 3 * k)) (samples ! (offset + 3 * k + 1))
                   (samples ! (offset + 3 * k + 2)))
          [0..<(length samples - offset) div 3]) s"
      unfolding n map_upt_Suc append_waveform_Cons
      by (simp add: slice_3[OF True] from_bytes_3 add.assoc add.left_commute)
    finally show ?thesis .
  next
    case False
    then have "(length samples - offset) div 3 = 0" by simp
    with False show ?thesis
      by (subst pmd_loop.simps) (simp add: append_waveform_Nil)
  qed
qed

lemma pmd_loop_groups: "pmd_loop samples 0 s = append_waveform (amplitude_groups samples) s"
  by (simp add: pmd_loop_eq amplitude_groups_def)

lemma pmd_data_handler_eq:
  "pmd_data_handler data s =
     Inr (if data = [] \<or> data ! 0 \<noteq> 0 then s
          else append_waveform (amplitude_groups (drop 10 data)) s)"
  by (simp add: pmd_data_handler_def getitem_def slice_from_def pmd_loop_groups)


lemma length_amplitude_groups: "length (amplitude_groups samples) = length samples div 3"
  by (simp add: amplitude_groups_def)

lemma nth_amplitude_groups:
  "k < length samples div 3 \<Longrightarrow>
   amplitude_groups samples ! k =
     le24_signed (samples ! (3 * k)) (samples ! (3 * k + 1)) (samples ! (3 * k + 2))"
  by (simp add: amplitude_groups_def)

lemma from_bytes_slice_1_3:
  "from_bytes_little (slice data 1 3) =
     (if length data \<le> 1 then 0
      else if length data = 2 then uint (data ! 1)
      else uint (data ! 1) + 256 * uint (data ! 2))"
proof (cases data)
  case Nil
  then show ?thesis by (simp add: slice_def)
next
  case (Cons a as)
  note c1 = this
  show ?thesis
  proof (cases as)
    case Nil
    with c1 show ?thesis by (simp add: slice_def)
  next
    case (Cons b bs)
    with c1 show ?thesis by (cases bs) (simp_all add: slice_def numeral_2_eq_2)
  qed
qed


lemma append_waveform_same_iff: "append_waveform as s = s \<longleftrightarrow> as = []"
proof
  assume "append_waveform as s = s"
  then have "sample_counter (append_waveform as s) = sample_counter s" by simp
  then show "as = []" by (simp add: append_waveform_def)
qed (simp add: append_waveform_Nil)


section \<open>Waveform packets\<close>

text \<open>
  Claim C1. For every payload, \<^verbatim>\<open>pmd_data_handler\<close> returns normally. It stores nothing
  when the payload is empty or its first byte is not 0; otherwise it appends one
  amplitude for each complete group of three bytes of \<^verbatim>\<open>data[10:]\<close>, in order, the
  \<open>k\<close>-th one being the little-endian two's-complement value of bytes \<open>10 + 3k\<close>,
  \<open>11 + 3k\<close>, \<open>12 + 3k\<close>; a remainder of one or two bytes is dropped. A packet with tag 0,
  nine further header bytes and the encodings of 100, -50 and 200 stores exactly
  \<open>[100, -50, 200]\<close>, at the relative times 0, 0.01 and 0.02.
\<close>

theorem waveform_decoding:
  "pmd_data_handler data s =
     Inr (if data = [] \<or> data ! 0 \<noteq> 0 then s
          else append_waveform (amplitude_groups (drop 10 data)) s)
   \<and> length (amplitude_groups (drop 10 data)) = (length data - 10) div 3
   \<and> (\<forall>k < (length data - 10) div 3.
         amplitude_groups (drop 10 data) ! k =
           le24_signed (data ! (10 + 3 * k)) (data ! (10 + 3 * k + 1)) (data ! (10 + 3 * k + 2)))
   \<and> le24_signed b0 b1 b2 = sint (word_cat b2 (word_cat b1 b0 :: 16 word) :: 24 word)
   \<and> pmd_data_handler
         ([0, h1, h2, h3, h4, h5, h6, h7, h8, h9] @ [100, 0, 0] @ [206, 255, 255] @ [200, 0, 0])
         (initial_session t0) =
       Inr ((initial_session t0)
             \<lparr>ecg_session_data := [100, - 50, 200],
              ecg_session_time := [0, 1 / 100, 2 / 100],
              sample_counter := 3\<rparr>)"
proof (intro conjI allI impI)
  show "pmd_data_handler data s =
     Inr (if data = [] \<or> data ! 0 \<noteq> 0 then s
          else append_waveform (amplitude_groups (drop 10 data)) s)"
    by (rule pmd_data_handler_eq)
  show "length (amplitude_groups (drop 10 data)) = (length data - 10) div 3"
    by (simp add: length_amplitude_groups)
  show "amplitude_groups (drop 10 data) ! k =
           le24_signed (data ! (10 + 3 * k)) (data ! (10 + 3 * k + 1)) (data ! (10 + 3 * k + 2))"
    if "k < (length data - 10) div 3" for k
  proof -
    from that have "10 + 3 * k + 2 < length data" by presburger
    with that show ?thesis
      by (simp add: nth_amplitude_groups add.assoc)
  qed
  show "le24_signed b0 b1 b2 = sint (word_cat b2 (word_cat b1 b0 :: 16 word) :: 24 word)"
    by (rule le24_signed_sint)
  show "pmd_data_handler
         ([0, h1, h2, h3, h4, h5, h6, h7, h8, h9] @ [100, 0, 0] @ [206, 255, 255] @ [200, 0, 0])
         (initial_session t0) =
       Inr ((initial_session t0)
             \<lparr>ecg_session_data := [100, - 50, 200],
              ecg_session_time := [0, 1 / 100, 2 / 100],
              sample_counter := 3\<rparr>)"
    by (simp add: pmd_data_handler_eq amplitude_groups_def append_waveform_def le24_signed_def
        initial_session_def true_div_def SAMPLING_RATE_def upt_conv_Cons bit7_iff)
qed

theorem waveform_decoding_witness:
  "pmd_data_handler [0, 1, 2, 3, 4, 5, 6, 7, 8, 9, 100, 0, 0, 206, 255, 255, 200, 0, 0, 7]
     (initial_session 0) =
   Inr (append_waveform [100, - 50, 200] (initial_session 0))"
proof -
  have g: "amplitude_groups [100, 0, 0, 206, 255, 255, 200, 0, 0, 7] = [100, - 50, 200]"
    by (simp add: amplitude_groups_def le24_signed_def upt_conv_Cons bit7_iff)
  show ?thesis
    using waveform_decoding
      [of "[0, 1, 2, 3, 4, 5, 6, 7, 8, 9, 100, 0, 0, 206, 255, 255, 200, 0, 0, 7]"
          "initial_session 0", THEN conjunct1]
    by (simp add: g)
qed

text \<open>
  Claim C10. The header bytes at indices 1 to 9 do not influence the handler: two
  payloads that agree on their first byte (both empty, or the same byte 0) and on the
  bytes from index 10 on lead from the same session to the same result.
\<close>

theorem header_noninterference:
  assumes "take 1 d1 = take 1 d2" and "drop 10 d1 = drop 10 d2"
  shows "pmd_data_handler d1 s = pmd_data_handler d2 s"
proof -
  from assms(1) have e: "d1 = [] \<longleftrightarrow> d2 = []"
    by (cases d1; cases d2) simp_all
  from assms(1) have t: "d1 \<noteq> [] \<Longrightarrow> d1 ! 0 = d2 ! 0"
    by (cases d1; cases d2) simp_all
  show ?thesis
    unfolding pmd_data_handler_eq using e t assms(2) by auto
qed


theorem header_noninterference_witness:
  "pmd_data_handler [0, 1, 2, 3, 4, 5, 6, 7, 8, 9, 100, 0, 0] (initial_session 0) =
   pmd_data_handler [0, 255, 254, 253, 252, 251, 250, 249, 248, 247, 100, 0, 0]
     (initial_session 0)"
  by (rule header_noninterference) simp_all

text \<open>
  Claim C4, as stated: a truncated waveform payload makes the decode step fail and
  leaves the session unchanged. The handler has no failing path. A payload cut in the
  middle of its second sample is accepted and its first sample is stored; a payload cut
  inside the header is accepted and stores nothing.
\<close>

theorem truncated_payload_counterexample:
  "pmd_data_handler [0, 0, 0, 0, 0, 0, 0, 0, 0, 0, 100, 0, 0, 7] (initial_session 0) =
     Inr ((initial_session 0)\<lparr>ecg_session_data := [100], ecg_session_time := [0], sample_counter := 1\<rparr>)
   \<and> (initial_session 0)\<lparr>ecg_session_data := [100], ecg_session_time := [0], sample_counter := 1\<rparr> \<noteq> initial_session 0
   \<and> pmd_data_handler [0, 0, 0] (initial_session 0) = Inr (initial_session 0)"
  by (simp add: pmd_data_handler_eq amplitude_groups_def append_waveform_def le24_signed_def
        initial_session_def true_div_def SAMPLING_RATE_def upt_conv_Cons bit7_iff)


text \<open>
  Claim C4, amended. The waveform handler returns normally for every payload. The
  session is unchanged exactly when the payload is empty, has a first byte other than
  0, or has fewer than 13 bytes (no complete sample after the ten header bytes). In every
  other case the complete three-byte groups are stored, also when the payload ends in a
  partial group.
\<close>

theorem waveform_never_fails:
  "\<exists>s'. pmd_data_handler data s = Inr s' \<and>
     (s' = s \<longleftrightarrow> data = [] \<or> data ! 0 \<noteq> 0 \<or> length data < 13) \<and>
     (data \<noteq> [] \<and> data ! 0 = 0 \<longrightarrow>
        ecg_session_data s' = ecg_session_data s @ amplitude_groups (drop 10 data) \<and>
        length (amplitude_groups (drop 10 data)) = (length data - 10) div 3)"
proof -
  have "amplitude_groups (drop 10 data) = [] \<longleftrightarrow> length data < 13"
    unfolding length_0_conv[symmetric] length_amplitude_groups by (simp; presburger)
  then have same: "(if data = [] \<or> data ! 0 \<noteq> 0 then s
          else append_waveform (amplitude_groups (drop 10 data)) s) = s
       \<longleftrightarrow> data = [] \<or> data ! 0 \<noteq> 0 \<or> length data < 13"
    by (simp add: append_waveform_same_iff)
  have stored: "data \<noteq> [] \<and> data ! 0 = 0 \<longrightarrow>
        ecg_session_data (if data = [] \<or> data ! 0 \<noteq> 0 then s
          else append_waveform (amplitude_groups (drop 10 data)) s)
          = ecg_session_data s @ amplitude_groups (drop 10 data) \<and>
        length (amplitude_groups (drop 10 data)) = (length data - 10) div 3"
    by (simp add: append_waveform_def length_amplitude_groups)
  from same stored show ?thesis
    unfolding pmd_data_handler_eq by blast
qed

theorem waveform_never_fails_witness:
  "\<exists>s'. pmd_data_handler [0, 0, 0, 0, 0, 0, 0, 0, 0, 0, 100, 0, 0, 7] (initial_session 0) = Inr s'
     \<and> s' \<noteq> initial_session 0
     \<and> ecg_session_data s' = [100]"
proof -
  have g: "amplitude_groups [100, 0, 0, 7] = [100]"
    by (simp add: amplitude_groups_def le24_signed_def upt_conv_Cons bit7_iff)
  show ?thesis
    using waveform_never_fails
      [of "[0, 0, 0, 0, 0, 0, 0, 0, 0, 0, 100, 0, 0, 7]" "initial_session 0"]
    by (auto simp: g initial_session_def)
qed

section \<open>Heart-rate packets\<close>

text \<open>
  Claim C3, as stated: the parse fails if and only if the payload has fewer than two
  bytes, and the 16-bit path needs three bytes. A one-byte payload with bit 0 set is
  parsed to 0, because \<^verbatim>\<open>data[1:3]\<close> is then the empty slice; a two-byte payload with
  bit 0 set is parsed to its second byte.
\<close>

theorem parse_short_payload_counterexample:
  "length [1 :: byte] < 2 \<and> parse_heart_rate_measurement [1] = Inr 0
   \<and> length [1 :: byte, 72] < 3 \<and> parse_heart_rate_measurement [1, 72] = Inr 72"
  by (simp add: parse_heart_rate_measurement_def getitem_def slice_def)


text \<open>
  Claim C3, amended. The parse raises \<^verbatim>\<open>IndexError\<close> exactly when the payload is empty,
  or has one byte with bit 0 clear. With bit 0 of byte 0 clear and at least two bytes it
  returns byte 1. With bit 0 set it returns the little-endian unsigned value of the
  bytes present at indices 1 and 2: 0 for a one-byte payload, byte 1 for a two-byte
  payload, the 16-bit value otherwise. The payloads \<open>[0x00, 72]\<close> and
  \<open>[0x01, 0x48, 0x00]\<close> both give 72.
\<close>

theorem parse_heart_rate_measurement_cases:
  "parse_heart_rate_measurement data =
     (if data = [] then Inl IndexError
      else if data ! 0 AND 1 = 0 then
        (if length data < 2 then Inl IndexError else Inr (uint (data ! 1)))
      else if length data = 1 then Inr 0
      else if length data = 2 then Inr (uint (data ! 1))
      else Inr (uint (data ! 1) + 256 * uint (data ! 2)))
   \<and> ((\<exists>e. parse_heart_rate_measurement data = Inl e) \<longleftrightarrow>
        data = [] \<or> (length data = 1 \<and> data ! 0 AND 1 = 0))
   \<and> parse_heart_rate_measurement [0, 72] = Inr 72
   \<and> parse_heart_rate_measurement [1, 72, 0] = Inr 72"
proof -
  have eq: "parse_heart_rate_measurement data =
     (if data = [] then Inl IndexError
      else if data ! 0 AND 1 = 0 then
        (if length data < 2 then Inl IndexError else Inr (uint (data ! 1)))
      else if length data = 1 then Inr 0
      else if length data = 2 then Inr (uint (data ! 1))
      else Inr (uint (data ! 1) + 256 * uint (data ! 2)))"
  proof -
    consider "data = []" | a where "data = [a]" | a b bs where "data = a # b # bs"
      by (cases data; cases "tl data") auto
    then show ?thesis
      unfolding parse_heart_rate_measurement_def getitem_def from_bytes_slice_1_3
      by cases auto
  qed
  have "(\<exists>e. parse_heart_rate_measurement data = Inl e) \<longleftrightarrow>
        data = [] \<or> (length data = 1 \<and> data ! 0 AND 1 = 0)"
    unfolding eq by (cases data) (auto simp: less_Suc_eq numeral_2_eq_2)
  moreover have "parse_heart_rate_measurement [0, 72] = Inr 72"
    "parse_heart_rate_measurement [1, 72, 0] = Inr 72"
    by (simp_all add: parse_heart_rate_measurement_def getitem_def slice_def)
  ultimately show ?thesis using eq by blast
qed


theorem parse_heart_rate_measurement_cases_witness:
  "parse_heart_rate_measurement [1, 44, 1] = Inr 300
   \<and> parse_heart_rate_measurement [6] = Inl IndexError
   \<and> (\<exists>e. parse_heart_rate_measurement [] = Inl e)"
  using parse_heart_rate_measurement_cases [of "[1, 44, 1]"]
    parse_heart_rate_measurement_cases [of "[6]"]
    parse_heart_rate_measurement_cases [of "[]"]
  by simp


section \<open>The session over time\<close>

lemma append_waveform_fields:
  "ecg_session_data (append_waveform as s) = ecg_session_data s @ as"
  "ecg_session_time (append_waveform as s) =
     ecg_session_time s @ map (\<lambda>k. true_div (sample_counter s + int k) SAMPLING_RATE) [0..<length as]"
  "sample_counter (append_waveform as s) = sample_counter s + int (length as)"
  "hr_log (append_waveform as s) = hr_log s"
  "current_ble_hr (append_waveform as s) = current_ble_hr s"
  "session_start_time (append_waveform as s) = session_start_time s"
  by (simp_all add: append_waveform_def)

lemma append_waveform_times:
  assumes c: "sample_counter s = int (length (ecg_session_data s))"
    and l: "length (ecg_session_time s) = length (ecg_session_data s)"
    and t: "\<forall>i<length (ecg_session_data s). ecg_session_time s ! i = true_div (int i) SAMPLING_RATE"
    and i: "i < length (ecg_session_data s) + length as"
  shows "ecg_session_time (append_waveform as s) ! i = true_div (int i) SAMPLING_RATE"
proof (cases "i < length (ecg_session_data s)")
  case True
  with l t show ?thesis by (simp add: append_waveform_fields nth_append)
next
  case False
  with i have "i - length (ecg_session_data s) < length as" by simp
  moreover from False have "int (length (ecg_session_data s)) + int (i - length (ecg_session_data s)) = int i"
    by simp
  ultimately show ?thesis
    using False l c by (simp add: append_waveform_fields nth_append)
qed

lemma pmd_data_handler_step:
  assumes "pmd_data_handler data s = Inr s'"
  obtains as where "s' = append_waveform as s"
proof -
  from assms have "s' = (if data = [] \<or> data ! 0 \<noteq> 0 then s
          else append_waveform (amplitude_groups (drop 10 data)) s)"
    by (simp add: pmd_data_handler_eq)
  then have "s' = append_waveform [] s \<or> s' = append_waveform (amplitude_groups (drop 10 data)) s"
    by (simp add: append_waveform_Nil)
  with that show thesis by blast
qed

lemma heart_rate_handler_step:
  assumes "heart_rate_notification_handler data now s = Inr s'"
  obtains hr where "s' = s\<lparr>current_ble_hr := Some hr, hr_log := hr_log s @ [(strftime_seconds now, hr)]\<rparr>"
  using assms unfolding heart_rate_notification_handler_def
  by (auto split: sum.splits)

lemma evolves_invariant:
  assumes "evolves s0 s"
    and "sample_counter s0 = int (length (ecg_session_data s0))"
    and "length (ecg_session_time s0) = length (ecg_session_data s0)"
    and "\<forall>i<length (ecg_session_data s0). ecg_session_time s0 ! i = true_div (int i) SAMPLING_RATE"
  shows "sample_counter s = int (length (ecg_session_data s)) \<and>
         length (ecg_session_time s) = length (ecg_session_data s) \<and>
         (\<forall>i<length (ecg_session_data s). ecg_session_time s ! i = true_div (int i) SAMPLING_RATE)"
  using assms
proof (induction rule: evolves.induct)
  case (evolves_refl s)
  then show ?case by simp
next
  case (evolves_waveform s s' data s'')
  then have inv: "sample_counter s' = int (length (ecg_session_data s'))"
      "length (ecg_session_time s') = length (ecg_session_data s')"
      "\<forall>i<length (ecg_session_data s'). ecg_session_time s' ! i = true_div (int i) SAMPLING_RATE"
    by simp_all
  from evolves_waveform.hyps(2) obtain as where s'': "s'' = append_waveform as s'"
    by (rule pmd_data_handler_step)
  have "ecg_session_time s'' ! i = true_div (int i) SAMPLING_RATE"
    if "i < length (ecg_session_data s'')" for i
    using that unfolding s'' by (intro append_waveform_times inv) (simp add: append_waveform_fields)
  with inv(1,2) show ?case
    by (simp add: s'' append_waveform_fields)
next
  case (evolves_heart_rate s s' data now s'')
  from evolves_heart_rate.hyps(2) obtain hr where
    "s'' = s'\<lparr>current_ble_hr := Some hr, hr_log := hr_log s' @ [(strftime_seconds now, hr)]\<rparr>"
    by (rule heart_rate_handler_step)
  with evolves_heart_rate show ?case by simp
qed

lemma evolves_extends:
  assumes "evolves s s'"
  shows "prefix (ecg_session_data s) (ecg_session_data s') \<and>
         prefix (ecg_session_time s) (ecg_session_time s') \<and>
         prefix (hr_log s) (hr_log s') \<and>
         sample_counter s \<le> sample_counter s' \<and>
         session_start_time s' = session_start_time s"
  using assms
proof (induction rule: evolves.induct)
  case (evolves_refl s)
  show ?case by simp
next
  case (evolves_waveform s s' data s'')
  from evolves_waveform.hyps(2) obtain as where s'': "s'' = append_waveform as s'"
    by (rule pmd_data_handler_step)
  have "prefix (ecg_session_data s') (ecg_session_data s'')"
    "prefix (ecg_session_time s') (ecg_session_time s'')"
    "hr_log s'' = hr_log s'" "sample_counter s' \<le> sample_counter s''"
    "session_start_time s'' = session_start_time s'"
    by (simp_all add: s'' append_waveform_fields)
  with evolves_waveform.IH show ?case
    by (auto intro: prefix_order.trans)
next
  case (evolves_heart_rate s s' data now s'')
  from evolves_heart_rate.hyps(2) obtain hr where
    "s'' = s'\<lparr>current_ble_hr := Some hr, hr_log := hr_log s' @ [(strftime_seconds now, hr)]\<rparr>"
    by (rule heart_rate_handler_step)
  then have "ecg_session_data s'' = ecg_session_data s'" "ecg_session_time s'' = ecg_session_time s'"
    "prefix (hr_log s') (hr_log s'')" "sample_counter s'' = sample_counter s'"
    "session_start_time s'' = session_start_time s'"
    by simp_all
  with evolves_heart_rate.IH show ?case
    by (auto intro: prefix_order.trans)
qed

text \<open>
  Claim C2. In every session reached from the initial one by handler calls,
  \<^verbatim>\<open>sample_counter\<close> is the number of stored samples, the two ECG lists have the same
  length, and the \<open>i\<close>-th stored relative time is \<open>i / SAMPLING_RATE\<close>. Whatever calls
  follow, the stored samples, their times and the heart-rate log are only extended:
  each earlier list is a prefix of the later one, and the counter does not decrease.
\<close>

theorem session_invariant:
  assumes "evolves (initial_session t0) s" and "evolves s s'"
  shows "sample_counter s = int (length (ecg_session_data s)) \<and>
         length (ecg_session_time s) = length (ecg_session_data s) \<and>
         (\<forall>i<length (ecg_session_data s). ecg_session_time s ! i = true_div (int i) SAMPLING_RATE) \<and>
         prefix (ecg_session_data s) (ecg_session_data s') \<and>
         prefix (ecg_session_time s) (ecg_session_time s') \<and>
         prefix (hr_log s) (hr_log s') \<and>
         sample_counter s \<le> sample_counter s'"
proof -
  have "sample_counter s = int (length (ecg_session_data s)) \<and>
         length (ecg_session_time s) = length (ecg_session_data s) \<and>
         (\<forall>i<length (ecg_session_data s). ecg_session_time s ! i = true_div (int i) SAMPLING_RATE)"
    using assms(1) by (rule evolves_invariant) (simp_all add: initial_session_def)
  with evolves_extends[OF assms(2)] show ?thesis by blast
qed

theorem session_invariant_witness:
  "evolves (initial_session 0)
     ((initial_session 0)\<lparr>ecg_session_data := [100, - 50], ecg_session_time := [0, 1 / 100],
        sample_counter := 2\<rparr>)
   \<and> evolves
     ((initial_session 0)\<lparr>ecg_session_data := [100, - 50], ecg_session_time := [0, 1 / 100],
        sample_counter := 2\<rparr>)
     ((initial_session 0)\<lparr>ecg_session_data := [100, - 50, 200],
        ecg_session_time := [0, 1 / 100, 2 / 100], sample_counter := 3,
        current_ble_hr := Some 72, hr_log := [(1000000, 72)]\<rparr>)
   \<and> prefix [100, - 50] [100, - 50, 200 :: int]
   \<and> [0, 1 / 100 :: rat] ! 1 = true_div 1 SAMPLING_RATE"
proof -
  let ?s0 = "initial_session 0"
  let ?s1 = "?s0\<lparr>ecg_session_data := [100, - 50], ecg_session_time := [0, 1 / 100],
        sample_counter := 2\<rparr>"
  let ?s2 = "?s0\<lparr>ecg_session_data := [100, - 50], ecg_session_time := [0, 1 / 100],
        sample_counter := 2, current_ble_hr := Some 72, hr_log := [(1000000, 72)]\<rparr>"
  let ?s3 = "?s0\<lparr>ecg_session_data := [100, - 50, 200],
        ecg_session_time := [0, 1 / 100, 2 / 100], sample_counter := 3,
        current_ble_hr := Some 72, hr_log := [(1000000, 72)]\<rparr>"
  have g1: "amplitude_groups [100, 0, 0, 206, 255, 255] = [100, - 50]"
    and g2: "amplitude_groups [200, 0, 0, 9, 9] = [200]"
    by (simp_all add: amplitude_groups_def le24_signed_def upt_conv_Cons bit7_iff)
  have p1: "pmd_data_handler [0, 1, 2, 3, 4, 5, 6, 7, 8, 9, 100, 0, 0, 206, 255, 255] ?s0 = Inr ?s1"
    by (simp add: pmd_data_handler_eq g1 append_waveform_def initial_session_def true_div_def
        SAMPLING_RATE_def upt_conv_Cons)
  have p2: "heart_rate_notification_handler [0, 72] 1250000 ?s1 = Inr ?s2"
    by (simp add: heart_rate_notification_handler_def parse_heart_rate_measurement_def getitem_def
        strftime_seconds_def initial_session_def)
  have p3: "pmd_data_handler [0, 1, 2, 3, 4, 5, 6, 7, 8, 9, 200, 0, 0, 9, 9] ?s2 = Inr ?s3"
    by (simp add: pmd_data_handler_eq g2 append_waveform_def initial_session_def true_div_def
        SAMPLING_RATE_def upt_conv_Cons)
  have e1: "evolves ?s0 ?s1"
    by (rule evolves_waveform [OF evolves_refl p1])
  have e2: "evolves ?s1 ?s3"
    by (rule evolves_waveform [OF evolves_heart_rate [OF evolves_refl p2] p3])
  from session_invariant [OF e1 e2] e1 e2 show ?thesis
    by (simp add: true_div_def SAMPLING_RATE_def)
qed

section \<open>The display window\<close>

lemma slice_from_neg: "0 < n \<Longrightarrow> slice_from xs (- int n) = drop (length xs - n) xs"
  by (simp add: slice_from_def nat_diff_distrib' del: of_nat_diff)

text \<open>
  Claim C7. The window size is \<open>SAMPLING_RATE * 10 = 1000\<close>, the rounding of the
  sampling rate times ten seconds. For a sample list and a time list of the same length:
  when there are more than 1000 samples, both results are the last 1000 elements of
  their inputs, element \<open>j\<close> of each coming from index \<open>len - 1000 + j\<close>; when there
  are at most 1000, both lists are returned as they are.
\<close>

theorem recent_window_trailing:
  assumes "length data = length times'"
  shows "SAMPLING_RATE * 10 = round (of_int SAMPLING_RATE * (10 :: rat)) \<and>
         SAMPLING_RATE * 10 = 1000 \<and>
         (length data > 1000 \<longrightarrow>
            recent_window data times' =
              (drop (length data - 1000) data, drop (length times' - 1000) times') \<and>
            length (fst (recent_window data times')) = 1000 \<and>
            length (snd (recent_window data times')) = 1000 \<and>
            (\<forall>j<1000. fst (recent_window data times') ! j = data ! (length data - 1000 + j) \<and>
                      snd (recent_window data times') ! j = times' ! (length data - 1000 + j))) \<and>
         (length data \<le> 1000 \<longrightarrow> recent_window data times' = (data, times'))"
proof (intro conjI impI)
  show "SAMPLING_RATE * 10 = round (of_int SAMPLING_RATE * (10 :: rat))"
  proof -
    have "round (of_int SAMPLING_RATE * (10 :: rat)) = round (of_int 1000 :: rat)"
      by (simp add: SAMPLING_RATE_def)
    also have "\<dots> = 1000" by (rule round_of_int)
    finally show ?thesis by (simp add: SAMPLING_RATE_def)
  qed
  show "SAMPLING_RATE * 10 = 1000" by (simp add: SAMPLING_RATE_def)
  show "recent_window data times' = (data, times')" if "length data \<le> 1000"
    using that by (simp add: recent_window_def SAMPLING_RATE_def)
  assume long: "1000 < length data"
  have s: "slice_from data (- 1000) = drop (length data - 1000) data"
    "slice_from times' (- 1000) = drop (length times' - 1000) times'"
    using slice_from_neg [of 1000 data] slice_from_neg [of 1000 times'] by simp_all
  from long show w: "recent_window data times' =
      (drop (length data - 1000) data, drop (length times' - 1000) times')"
    by (simp add: recent_window_def SAMPLING_RATE_def s)
  from long assms show "length (fst (recent_window data times')) = 1000"
    "length (snd (recent_window data times')) = 1000"
    by (simp_all add: w)
  from long assms show "\<forall>j<1000. fst (recent_window data times') ! j = data ! (length data - 1000 + j) \<and>
                      snd (recent_window data times') ! j = times' ! (length data - 1000 + j)"
    by (simp add: w)
qed

theorem recent_window_trailing_witness:
  "recent_window (replicate 1001 5 @ [7]) (replicate 1002 0) = (replicate 999 5 @ [7], replicate 1000 0)
   \<and> recent_window [1, 2, 3] [0, 1 / 100, 2 / 100] = ([1, 2, 3], [0, 1 / 100, 2 / 100])"
  using recent_window_trailing [of "replicate 1001 5 @ [7]" "replicate 1002 0"]
    recent_window_trailing [of "[1, 2, 3]" "[0, 1 / 100, 2 / 100]"]
  by simp

text \<open>
  Claim C9. With no samples in the session, \<^verbatim>\<open>update_graph\<close> returns normally, with a
  figure that has the (empty) line and no peak markers, whatever \<^verbatim>\<open>find_peaks\<close> and
  \<^verbatim>\<open>np.std\<close> would do on an empty array: the guard \<^verbatim>\<open>len(data) > 0\<close> keeps both from
  being called.
\<close>

theorem no_peaks_on_empty:
  assumes "ecg_session_data s = []" and "ecg_session_time s = []"
  shows "update_graph find_peaks np_std now s = Inr ([Line [] []], current_ble_hr s, now)
         \<and> marked_points [Line [] []] = []"
  using assms by (simp add: update_graph_def recent_window_def SAMPLING_RATE_def)

theorem no_peaks_on_empty_witness:
  "update_graph (\<lambda>data distance prominence. Inl ExternalError) (\<lambda>data. Inl ExternalError)
     1250000 (initial_session 0) = Inr ([Line [] []], None, 1250000)"
  using no_peaks_on_empty
    [of "initial_session 0" "\<lambda>data distance prominence. Inl ExternalError"
        "\<lambda>data. Inl ExternalError" 1250000]
  by (simp add: initial_session_def)

section \<open>The export\<close>

lemma round_half_even_of_int: "round_half_even (of_int n) = n"
  by (simp add: round_half_even_def)

lemma timedelta_sample: "timedelta_seconds (true_div i SAMPLING_RATE) = 10000 * i"
proof -
  have "true_div i SAMPLING_RATE * 1000000 = of_int (10000 * i)"
    by (simp add: true_div_def SAMPLING_RATE_def)
  then show ?thesis
    unfolding timedelta_seconds_def by (simp only: round_half_even_of_int)
qed

text \<open>
  Claim C6, as stated: the export fails with \<^verbatim>\<open>EmptySession\<close> when there is nothing to
  export. The callback has no such check: on the initial session it returns normally,
  with no rows.
\<close>

theorem empty_export_counterexample:
  "ecg_session_data (initial_session 0) = [] \<and> ecg_session_time (initial_session 0) = []
   \<and> hr_log (initial_session 0) = []
   \<and> generate_combined_csv (initial_session 0) = Inr ([], initial_session 0)
   \<and> \<not> (\<exists>e. generate_combined_csv (initial_session 0) = Inl e)"
  by (simp add: generate_combined_csv_def initial_session_def)

text \<open>
  Claim C6, amended. The export never fails and leaves the session as it was; when
  there are no samples and no heart-rate events it returns the empty list of rows.
\<close>

theorem empty_export_returns_no_rows:
  "(\<exists>rows. generate_combined_csv s = Inr (rows, s)) \<and>
   (ecg_session_data s = [] \<and> hr_log s = [] \<longrightarrow> generate_combined_csv s = Inr ([], s))"
  by (simp add: generate_combined_csv_def Let_def)

theorem empty_export_returns_no_rows_witness:
  "generate_combined_csv (initial_session 7) = Inr ([], initial_session 7)"
  using empty_export_returns_no_rows [of "initial_session 7"]
  by (simp add: initial_session_def)

text \<open>
  Claim C5, as stated: heart-rate rows carry the source \<open>HeartRate\<close>. The callback writes
  \<open>Heart Rate\<close>, with a space.
\<close>

theorem hr_source_counterexample:
  "generate_combined_csv
     ((initial_session 0)\<lparr>current_ble_hr := Some 72, hr_log := [(1000000, 72)]\<rparr>) =
   Inr ([\<lparr>timestamp = 1000000, source = ''Heart Rate'', row_value = 72\<rparr>],
        (initial_session 0)\<lparr>current_ble_hr := Some 72, hr_log := [(1000000, 72)]\<rparr>)
   \<and> source \<lparr>timestamp = 1000000, source = ''Heart Rate'', row_value = 72\<rparr> \<noteq> ''HeartRate''"
  by (simp add: generate_combined_csv_def initial_session_def hr_row_def)

text \<open>
  Claim C5, amended. In every session reached from the initial one, the export returns
  one row for each stored sample, the \<open>i\<close>-th with the timestamp of the session start
  plus the \<open>i\<close>-th relative time (exactly \<open>10000 * i\<close> microseconds), source \<open>ECG\<close>
  and the amplitude as value, and one row for each logged heart-rate event, with the
  logged timestamp, source \<open>Heart Rate\<close> and the heart rate as value. The result holds
  exactly these rows, in ascending order of timestamp; rows with the same timestamp keep
  their order of construction, ECG rows before heart-rate rows.
\<close>

theorem export_rows_sorted_merge:
  assumes "evolves (initial_session t0) s"
  shows "\<exists>rows ecg_rows hr_rows.
      generate_combined_csv s = Inr (rows, s) \<and>
      length ecg_rows = length (ecg_session_data s) \<and>
      (\<forall>i<length (ecg_session_data s).
         ecg_rows ! i =
           \<lparr>timestamp = t0 + timedelta_seconds (ecg_session_time s ! i), source = ''ECG'',
            row_value = ecg_session_data s ! i\<rparr> \<and>
         timedelta_seconds (ecg_session_time s ! i) = 10000 * int i) \<and>
      hr_rows =
        map (\<lambda>(observed_at, hr).
               \<lparr>timestamp = observed_at, source = ''Heart Rate'', row_value = hr\<rparr>) (hr_log s) \<and>
      mset rows = mset ecg_rows + mset hr_rows \<and>
      sorted (map timestamp rows) \<and>
      (\<forall>t. filter (\<lambda>r. timestamp r = t) rows =
             filter (\<lambda>r. timestamp r = t) ecg_rows @ filter (\<lambda>r. timestamp r = t) hr_rows)"
proof -
  let ?e = "map (ecg_row (session_start_time s)) (zip (ecg_session_time s) (ecg_session_data s))"
  let ?h = "map hr_row (hr_log s)"
  let ?rows = "sort_key timestamp (?e @ ?h)"
  from assms have inv: "length (ecg_session_time s) = length (ecg_session_data s)"
    "\<forall>i<length (ecg_session_data s). ecg_session_time s ! i = true_div (int i) SAMPLING_RATE"
    using evolves_invariant [of "initial_session t0" s] by (simp_all add: initial_session_def)
  from assms have start: "session_start_time s = t0"
    using evolves_extends [of "initial_session t0" s] by (simp add: initial_session_def)
  have "generate_combined_csv s = Inr (?rows, s)"
    by (simp add: generate_combined_csv_def)
  moreover have "length ?e = length (ecg_session_data s)"
    using inv(1) by simp
  moreover have "\<forall>i<length (ecg_session_data s).
         ?e ! i =
           \<lparr>timestamp = t0 + timedelta_seconds (ecg_session_time s ! i), source = ''ECG'',
            row_value = ecg_session_data s ! i\<rparr> \<and>
         timedelta_seconds (ecg_session_time s ! i) = 10000 * int i"
    using inv by (simp add: ecg_row_def start timedelta_sample)
  moreover have "?h = map (\<lambda>(observed_at, hr).
               \<lparr>timestamp = observed_at, source = ''Heart Rate'', row_value = hr\<rparr>) (hr_log s)"
    by (simp add: hr_row_def)
  moreover have "mset ?rows = mset ?e + mset ?h"
    by simp
  moreover have "sorted (map timestamp ?rows)"
    by (rule sorted_sort_key)
  moreover have "\<forall>t. filter (\<lambda>r. timestamp r = t) ?rows =
             filter (\<lambda>r. timestamp r = t) ?e @ filter (\<lambda>r. timestamp r = t) ?h"
    by (simp only: sort_key_stable filter_append) simp
  ultimately show ?thesis by blast
qed

theorem export_rows_sorted_merge_witness:
  "evolves (initial_session 0)
     \<lparr>ecg_session_data = [100, - 50], ecg_session_time = [0, 1 / 100], sample_counter = 2,
      current_ble_hr = Some 72, hr_log = [(0, 72)], session_start_time = 0\<rparr>
   \<and> (\<exists>rows. generate_combined_csv
         \<lparr>ecg_session_data = [100, - 50], ecg_session_time = [0, 1 / 100], sample_counter = 2,
          current_ble_hr = Some 72, hr_log = [(0, 72)], session_start_time = 0\<rparr> =
        Inr (rows,
         \<lparr>ecg_session_data = [100, - 50], ecg_session_time = [0, 1 / 100], sample_counter = 2,
          current_ble_hr = Some 72, hr_log = [(0, 72)], session_start_time = 0\<rparr>)
      \<and> sorted (map timestamp rows)
      \<and> filter (\<lambda>r. timestamp r = 0) rows =
          [\<lparr>timestamp = 0, source = ''ECG'', row_value = 100\<rparr>,
           \<lparr>timestamp = 0, source = ''Heart Rate'', row_value = 72\<rparr>])"
proof -
  let ?s0 = "initial_session 0"
  let ?s1 = "?s0\<lparr>current_ble_hr := Some 72, hr_log := [(0, 72)]\<rparr>"
  let ?s2 = "\<lparr>ecg_session_data = [100, - 50], ecg_session_time = [0, 1 / 100], sample_counter = 2,
      current_ble_hr = Some 72, hr_log = [(0, 72)], session_start_time = 0\<rparr>"
  have g: "amplitude_groups [100, 0, 0, 206, 255, 255] = [100, - 50]"
    by (simp add: amplitude_groups_def le24_signed_def upt_conv_Cons bit7_iff)
  have p1: "heart_rate_notification_handler [0, 72] 250000 ?s0 = Inr ?s1"
    by (simp add: heart_rate_notification_handler_def parse_heart_rate_measurement_def getitem_def
        strftime_seconds_def initial_session_def)
  have p2: "pmd_data_handler [0, 1, 2, 3, 4, 5, 6, 7, 8, 9, 100, 0, 0, 206, 255, 255] ?s1 = Inr ?s2"
    by (simp add: pmd_data_handler_eq g append_waveform_def initial_session_def true_div_def
        SAMPLING_RATE_def upt_conv_Cons)
  have e: "evolves ?s0 ?s2"
    by (rule evolves_waveform [OF evolves_heart_rate [OF evolves_refl p1] p2])
  from export_rows_sorted_merge [OF e] obtain rows ecg_rows hr_rows where
    r: "generate_combined_csv ?s2 = Inr (rows, ?s2)"
    and l: "length ecg_rows = length (ecg_session_data ?s2)"
    and n: "\<forall>i<length (ecg_session_data ?s2).
         ecg_rows ! i =
           \<lparr>timestamp = 0 + timedelta_seconds (ecg_session_time ?s2 ! i), source = ''ECG'',
            row_value = ecg_session_data ?s2 ! i\<rparr> \<and>
         timedelta_seconds (ecg_session_time ?s2 ! i) = 10000 * int i"
    and h: "hr_rows =
        map (\<lambda>(observed_at, hr).
               \<lparr>timestamp = observed_at, source = ''Heart Rate'', row_value = hr\<rparr>) (hr_log ?s2)"
    and srt: "sorted (map timestamp rows)"
    and st: "\<forall>t. filter (\<lambda>r. timestamp r = t) rows =
             filter (\<lambda>r. timestamp r = t) ecg_rows @ filter (\<lambda>r. timestamp r = t) hr_rows"
    by blast
  from n [rule_format, of 0] n [rule_format, of 1]
  have "ecg_rows ! 0 = \<lparr>timestamp = 0, source = ''ECG'', row_value = 100\<rparr>"
    "ecg_rows ! 1 = \<lparr>timestamp = 10000, source = ''ECG'', row_value = - 50\<rparr>"
    by simp_all
  with l have "ecg_rows = [\<lparr>timestamp = 0, source = ''ECG'', row_value = 100\<rparr>,
      \<lparr>timestamp = 10000, source = ''ECG'', row_value = - 50\<rparr>]"
    by (simp add: list_eq_iff_nth_eq less_Suc_eq numeral_2_eq_2)
  with st h have "filter (\<lambda>r. timestamp r = 0) rows =
          [\<lparr>timestamp = 0, source = ''ECG'', row_value = 100\<rparr>,
           \<lparr>timestamp = 0, source = ''Heart Rate'', row_value = 72\<rparr>]"
    by simp
  with e r srt show ?thesis by blast
qed

end
